theory Spec2Isabelle
  imports Main "HOL-Library.Word" "HOL-Library.Multiset"
begin

unbundle bit_operations_syntax

section \<open>HRW placement (dfc/hrw.go)\<close>

subsection \<open>The digest\<close>

text \<open>
  \<^verbatim>\<open>hrwTarget\<close> weighs every node with \<^verbatim>\<open>xxhash.ChecksumString32S(key, LCG32)\<close>.
  The digest lives in the external library github.com/OneOfOne/xxhash, not in the
  repository, so the placement functions below take it as a parameter \<open>H\<close>. The
  instance the program runs with is XXH32; it is written out here from the published
  XXH32 algorithm so that the placement can be evaluated on concrete names.
\<close>

type_synonym u32 = "32 word"

definition LCG32 :: u32 where
  "LCG32 = 1103515245"

definition prime32x1 :: u32 where "prime32x1 = 2654435761"
definition prime32x2 :: u32 where "prime32x2 = 2246822519"
definition prime32x3 :: u32 where "prime32x3 = 3266489917"
definition prime32x4 :: u32 where "prime32x4 = 668265263"
definition prime32x5 :: u32 where "prime32x5 = 374761393"

definition rotl32 :: "u32 \<Rightarrow> nat \<Rightarrow> u32" where
  "rotl32 x r = push_bit r x OR drop_bit (32 - r) x"

text \<open>Four bytes read as a little-endian 32-bit word.\<close>

definition u32le :: "char \<Rightarrow> char \<Rightarrow> char \<Rightarrow> char \<Rightarrow> u32" where
  "u32le a b c d =
     of_char a OR push_bit 8 (of_char b) OR push_bit 16 (of_char c) OR push_bit 24 (of_char d)"

definition xxh_round :: "u32 \<Rightarrow> u32 \<Rightarrow> u32" where
  "xxh_round acc inp = rotl32 (acc + inp * prime32x2) 13 * prime32x1"

text \<open>The 16-byte stripes, consumed while at least 16 bytes remain.\<close>

function xxh_stripes :: "u32 \<Rightarrow> u32 \<Rightarrow> u32 \<Rightarrow> u32 \<Rightarrow> string \<Rightarrow> (u32 \<times> string)" where
  "xxh_stripes v1 v2 v3 v4 bs =
     (if 16 \<le> length bs then
        xxh_stripes
          (xxh_round v1 (u32le (bs ! 0) (bs ! 1) (bs ! 2) (bs ! 3)))
          (xxh_round v2 (u32le (bs ! 4) (bs ! 5) (bs ! 6) (bs ! 7)))
          (xxh_round v3 (u32le (bs ! 8) (bs ! 9) (bs ! 10) (bs ! 11)))
          (xxh_round v4 (u32le (bs ! 12) (bs ! 13) (bs ! 14) (bs ! 15)))
          (drop 16 bs)
      else (rotl32 v1 1 + rotl32 v2 7 + rotl32 v3 12 + rotl32 v4 18, bs))"
  by pat_completeness auto
termination
  by (relation "measure (\<lambda>(v1, v2, v3, v4, bs). length bs)") auto

declare xxh_stripes.simps [simp del]

text \<open>The tail: whole 4-byte words first, then the last one to three bytes.\<close>

fun xxh_tail :: "u32 \<Rightarrow> string \<Rightarrow> u32" where
  "xxh_tail h (a # b # c # d # rest) =
     xxh_tail (rotl32 (h + u32le a b c d * prime32x3) 17 * prime32x4) rest"
| "xxh_tail h (a # rest) =
     xxh_tail (rotl32 (h + of_char a * prime32x5) 11 * prime32x1) rest"
| "xxh_tail h [] = h"

definition xxh_avalanche :: "u32 \<Rightarrow> u32" where
  "xxh_avalanche h0 =
     (let h1 = (h0 XOR drop_bit 15 h0) * prime32x2;
          h2 = (h1 XOR drop_bit 13 h1) * prime32x3
      in h2 XOR drop_bit 16 h2)"

definition ChecksumString32S :: "string \<Rightarrow> u32 \<Rightarrow> u32" where
  "ChecksumString32S s seed =
     (let (h, rest) =
            (if 16 \<le> length s
             then xxh_stripes (seed + prime32x1 + prime32x2) (seed + prime32x2) seed
                    (seed - prime32x1) s
             else (seed + prime32x5, s))
      in xxh_avalanche (xxh_tail (h + of_nat (length s)) rest))"

subsection \<open>Cluster map and target selection\<close>

text \<open>
  Modelled from the spec: the node descriptor \<^verbatim>\<open>daemonInfo\<close> is declared outside the
  files at hand. The spec's data model gives a node an \<open>id\<close>, a \<open>role\<close> and a flag set
  with the bits \<open>Maintenance\<close> and \<open>Decommission\<close>.
\<close>

datatype role = Proxy | Target

datatype node_flag = Maintenance | Decommission

record daemonInfo =
  DaemonID :: string
  Role :: role
  Flags :: "node_flag set"

text \<open>
  \<^verbatim>\<open>smap.Smap\<close> is a Go map from node id to \<^verbatim>\<open>*daemonInfo\<close>. \<^verbatim>\<open>range\<close> visits its entries in
  an order the language leaves unspecified, so the map is given as the list of its entries
  in the order one particular \<^verbatim>\<open>range\<close> visits them; the keys of a map are distinct.
\<close>

type_synonym Smap = "(string \<times> daemonInfo) list"

definition is_smap :: "Smap \<Rightarrow> bool" where
  "is_smap smap = distinct (map fst smap)"

text \<open>The weight of the node with key \<open>id\<close> for the object \<open>name\<close>.\<close>

definition weight :: "(string \<Rightarrow> u32 \<Rightarrow> u32) \<Rightarrow> string \<Rightarrow> string \<Rightarrow> u32" where
  "weight H name ident = H (ident @ '':'' @ name) LCG32"

text \<open>
  The loop of \<^verbatim>\<open>hrwTarget\<close>: \<open>mx\<close> is the local \<^verbatim>\<open>max\<close>, \<open>si\<close> the named result, \<open>None\<close>
  standing for the nil pointer it starts as.
\<close>

fun hrw_loop ::
  "(string \<Rightarrow> u32 \<Rightarrow> u32) \<Rightarrow> string \<Rightarrow> Smap \<Rightarrow> u32 \<Rightarrow> daemonInfo option \<Rightarrow> daemonInfo option"
where
  "hrw_loop H name [] mx si = si"
| "hrw_loop H name ((ident, sinfo) # rest) mx si =
     (let cs = H (ident @ '':'' @ name) LCG32
      in if cs > mx then hrw_loop H name rest cs (Some sinfo)
         else hrw_loop H name rest mx si)"

definition hrwTarget :: "(string \<Rightarrow> u32 \<Rightarrow> u32) \<Rightarrow> string \<Rightarrow> Smap \<Rightarrow> daemonInfo option" where
  "hrwTarget H name smap = hrw_loop H name smap 0 None"

section \<open>Mountpath lifecycle (fsprungroup)\<close>

subsection \<open>Effects and collaborators\<close>

text \<open>A Go \<^verbatim>\<open>error\<close> value, reduced to the message that \<^verbatim>\<open>%v\<close> prints.\<close>

datatype error = Error string

fun errmsg :: "error \<Rightarrow> string" where
  "errmsg (Error m) = m"

text \<open>
  Modelled from the spec: \<^verbatim>\<open>fs.MountpathInfo\<close> is declared in the \<^verbatim>\<open>fs\<close> package, outside the
  files at hand. The spec's data model keys a mountpath by its \<open>path\<close> and gives it an
  \<open>fsid\<close>; the wrappers read \<^verbatim>\<open>Path\<close> only.
\<close>

record MountpathInfo =
  Path :: string
  Fsid :: nat

text \<open>
  The two goroutines the wrappers start: \<^verbatim>\<open>go mpath.EvictLomCache()\<close>, and the anonymous
  function that runs the resilver (when enabled in the configuration) and renews
  MakeNCopies with the given reason. They are started and never awaited, so the model
  records the start as an event; what the second one then does is \<open>postEventJob\<close>.
\<close>

datatype goroutine = EvictLomCache string | PostEvent string

datatype jobcall = RunResilver string bool | RenewMakeNCopies string

definition postEventJob :: "bool \<Rightarrow> string \<Rightarrow> jobcall list" where
  "postEventJob resilverEnabled reason =
     (if resilverEnabled then [RunResilver [] False] else []) @ [RenewMakeNCopies reason]"

text \<open>Every call the wrappers make to the outside, in the order made.\<close>

datatype event =
    AbortAllMountpathsXactions
  | Go goroutine
  | Infof string
  | Errorf string
  | TargetDisable
  | TargetEnable
  | BMDPersist
  | CreateNewVMD string
  | AssertNoErrPanic string
  | ExitLogf string

text \<open>
  Everything outside the GFN flag: \<open>registry\<close> is the state of the packages the wrappers
  call into (the fs registry, the disks, the cluster), \<open>events\<close> the calls made so far,
  oldest first.
\<close>

record 'fs sys =
  registry :: 'fs
  events :: "event list"

definition emit :: "'fs sys \<Rightarrow> event list \<Rightarrow> 'fs sys" where
  "emit s es = s\<lparr>events := events s @ es\<rparr>"

text \<open>A call either returns a value, or the process terminates inside it.\<close>

datatype ('a, 's) outcome = Returns 'a 's | Exits 's

text \<open>
  The collaborators, none of them defined in the files at hand, as parameters. A registry
  mutator takes the mountpath and the hook and returns \<^verbatim>\<open>(*MountpathInfo, error)\<close>;
  \<^verbatim>\<open>fs.Add\<close> takes the target id as well. \<^verbatim>\<open>fs.Get\<close> returns the available and the
  disabled mountpaths. \<open>debugBuild\<close> says whether \<^verbatim>\<open>debug.AssertNoErr\<close> is compiled in.
\<close>

type_synonym 'fs hook = "'fs sys \<Rightarrow> (unit, 'fs sys) outcome"

type_synonym 'fs mutator =
  "string \<Rightarrow> 'fs hook \<Rightarrow> 'fs sys \<Rightarrow> (MountpathInfo option \<times> error option, 'fs sys) outcome"

record 'fs collab =
  fs_Add :: "string \<Rightarrow> string \<Rightarrow> 'fs hook \<Rightarrow> 'fs sys
               \<Rightarrow> (MountpathInfo option \<times> error option, 'fs sys) outcome"
  fs_Remove :: "'fs mutator"
  fs_Enable :: "'fs mutator"
  fs_Disable :: "'fs mutator"
  fs_Get :: "'fs \<Rightarrow> MountpathInfo list \<times> MountpathInfo list"
  hasEnoughBMDCopies :: "'fs \<Rightarrow> bool"
  bmd_persist :: "'fs \<Rightarrow> error option \<times> 'fs"
  fs_CreateNewVMD :: "string \<Rightarrow> 'fs \<Rightarrow> error option \<times> 'fs"
  t_disable :: "'fs \<Rightarrow> error option \<times> 'fs"
  t_enable :: "'fs \<Rightarrow> error option \<times> 'fs"
  si_ID :: string
  si_String :: string
  debugBuild :: bool

subsection \<open>The GFN flag\<close>

text \<open>
  Modelled from the spec: \<^verbatim>\<open>g.t.gfn.local\<close> is defined outside the files at hand. The spec's
  data model makes it a per-target boolean whose \<^verbatim>\<open>Activate()\<close> sets the flag and returns
  whether it was already active, which is how the wrappers read the result
  (\<^verbatim>\<open>gfnActive\<close>), and whose \<^verbatim>\<open>Deactivate()\<close> clears it for the caller that performed the
  activation. The wrappers call \<^verbatim>\<open>Deactivate()\<close> only after \<^verbatim>\<open>Activate()\<close> has returned false,
  that is, as that caller. \<open>Activate\<close> returns the old flag and the new one.
\<close>

definition Activate :: "bool \<Rightarrow> bool \<times> bool" where
  "Activate flag = (flag, True)"

definition Deactivate :: "bool \<Rightarrow> bool" where
  "Deactivate flag = False"

record 'fs targetrunner =
  gfn :: bool
  sys :: "'fs sys"

subsection \<open>The metadata-redistribution hook\<close>

text \<open>
  \<^verbatim>\<open>debug.AssertNoErr(err); cos.ExitLogf("%v", err)\<close>: with assertions compiled in the first
  call panics, otherwise the second one logs and exits. Either way the process ends.
\<close>

definition fatal :: "'fs collab \<Rightarrow> error \<Rightarrow> event" where
  "fatal c err = (if debugBuild c then AssertNoErrPanic (errmsg err) else ExitLogf (errmsg err))"

definition redistributeMD :: "'fs collab \<Rightarrow> 'fs sys \<Rightarrow> (unit, 'fs sys) outcome" where
  "redistributeMD c s =
     (let bmd =
        (if \<not> hasEnoughBMDCopies c (registry s) then
           (case bmd_persist c (registry s) of
              (Some err, r) \<Rightarrow> Exits (emit (s\<lparr>registry := r\<rparr>) [BMDPersist, fatal c err])
            | (None, r) \<Rightarrow> Returns () (emit (s\<lparr>registry := r\<rparr>) [BMDPersist]))
         else Returns () s)
      in case bmd of
           Exits s1 \<Rightarrow> Exits s1
         | Returns _ s1 \<Rightarrow>
             (case fs_CreateNewVMD c (si_ID c) (registry s1) of
                (Some err, r) \<Rightarrow>
                  Exits (emit (s1\<lparr>registry := r\<rparr>) [CreateNewVMD (si_ID c), fatal c err])
              | (None, r) \<Rightarrow>
                  Returns () (emit (s1\<lparr>registry := r\<rparr>) [CreateNewVMD (si_ID c)])))"

subsection \<open>Post-events\<close>

definition addMpathAct :: string where "addMpathAct = ''Added''"
definition enableMpathAct :: string where "enableMpathAct = ''Enabled''"
definition removeMpathAct :: string where "removeMpathAct = ''Removed''"
definition disableMpathAct :: string where "disableMpathAct = ''Disabled''"

definition checkZeroMountpaths :: "'fs collab \<Rightarrow> string \<Rightarrow> 'fs sys \<Rightarrow> bool \<times> 'fs sys" where
  "checkZeroMountpaths c action s =
     (let (availablePaths, _) = fs_Get c (registry s)
      in if length availablePaths > 0 then (False, s)
         else
           (let (err, r) = t_disable c (registry s);
                s1 = emit (s\<lparr>registry := r\<rparr>) [TargetDisable]
            in case err of
                 Some e \<Rightarrow>
                   (True, emit s1 [Errorf (action
                      @ '' the last available mountpath, failed to unregister target ''
                      @ si_String c @ '' (self), err: '' @ errmsg e)])
               | None \<Rightarrow>
                   (True, emit s1 [Errorf (action
                      @ '' the last available mountpath and unregistered target ''
                      @ si_String c @ '' (self)'')])))"

definition checkEnable :: "'fs collab \<Rightarrow> string \<Rightarrow> string \<Rightarrow> 'fs sys \<Rightarrow> 'fs sys" where
  "checkEnable c action mpath s =
     (let (availablePaths, _) = fs_Get c (registry s)
      in if length availablePaths > 1 then
           emit s [Infof (action @ '' mountpath '' @ mpath)]
         else
           (let s1 = emit s [Infof (action @ '' the first mountpath '' @ mpath)];
                (err, r) = t_enable c (registry s1);
                s2 = emit (s1\<lparr>registry := r\<rparr>) [TargetEnable]
            in case err of
                 Some e \<Rightarrow>
                   emit s2 [Errorf (''Failed to re-register '' @ si_String c
                      @ '' (self), err: '' @ errmsg e)]
               | None \<Rightarrow> s2))"

definition addMpathEvent :: "'fs collab \<Rightarrow> string \<Rightarrow> MountpathInfo \<Rightarrow> 'fs sys \<Rightarrow> 'fs sys" where
  "addMpathEvent c action mpath s =
     checkEnable c action (Path mpath)
       (emit s [AbortAllMountpathsXactions, Go (PostEvent ''add-mp'')])"

definition delMpathEvent :: "'fs collab \<Rightarrow> string \<Rightarrow> MountpathInfo \<Rightarrow> 'fs sys \<Rightarrow> 'fs sys" where
  "delMpathEvent c action mpath s =
     (let s1 = emit s [AbortAllMountpathsXactions, Go (EvictLomCache (Path mpath))];
          (disabled, s2) = checkZeroMountpaths c action s1
      in if disabled then s2 else emit s2 [Go (PostEvent ''del-mp'')])"

subsection \<open>The four wrappers\<close>

text \<open>
  Each wrapper activates the GFN, calls its registry mutator with \<open>redistributeMD\<close> as
  the hook, and on an error or a nil descriptor undoes its own activation and returns.
  \<^verbatim>\<open>enableMountpath\<close> and \<^verbatim>\<open>disableMountpath\<close> return \<^verbatim>\<open>(bool, error)\<close>; \<^verbatim>\<open>addMountpath\<close> and
  \<^verbatim>\<open>removeMountpath\<close> return the error alone.
\<close>

definition enableMountpath ::
  "'fs collab \<Rightarrow> string \<Rightarrow> 'fs targetrunner \<Rightarrow> (bool \<times> error option, 'fs targetrunner) outcome"
where
  "enableMountpath c mpath t =
     (let (gfnActive, g1) = Activate (gfn t)
      in case fs_Enable c mpath (redistributeMD c) (sys t) of
           Exits s \<Rightarrow> Exits \<lparr>gfn = g1, sys = s\<rparr>
         | Returns (enabledMpath, err) s \<Rightarrow>
             (if err \<noteq> None \<or> enabledMpath = None then
                Returns (False, err)
                  \<lparr>gfn = (if \<not> gfnActive then Deactivate g1 else g1), sys = s\<rparr>
              else
                Returns (True, None)
                  \<lparr>gfn = g1, sys = addMpathEvent c enableMpathAct (the enabledMpath) s\<rparr>))"

definition disableMountpath ::
  "'fs collab \<Rightarrow> string \<Rightarrow> 'fs targetrunner \<Rightarrow> (bool \<times> error option, 'fs targetrunner) outcome"
where
  "disableMountpath c mpath t =
     (let (gfnActive, g1) = Activate (gfn t)
      in case fs_Disable c mpath (redistributeMD c) (sys t) of
           Exits s \<Rightarrow> Exits \<lparr>gfn = g1, sys = s\<rparr>
         | Returns (disabledMpath, err) s \<Rightarrow>
             (if err \<noteq> None \<or> disabledMpath = None then
                Returns (False, err)
                  \<lparr>gfn = (if \<not> gfnActive then Deactivate g1 else g1), sys = s\<rparr>
              else
                Returns (True, None)
                  \<lparr>gfn = g1, sys = delMpathEvent c disableMpathAct (the disabledMpath) s\<rparr>))"

definition addMountpath ::
  "'fs collab \<Rightarrow> string \<Rightarrow> 'fs targetrunner \<Rightarrow> (error option, 'fs targetrunner) outcome"
where
  "addMountpath c mpath t =
     (let (gfnActive, g1) = Activate (gfn t)
      in case fs_Add c mpath (si_ID c) (redistributeMD c) (sys t) of
           Exits s \<Rightarrow> Exits \<lparr>gfn = g1, sys = s\<rparr>
         | Returns (addedMpath, err) s \<Rightarrow>
             (if err \<noteq> None \<or> addedMpath = None then
                Returns err
                  \<lparr>gfn = (if \<not> gfnActive then Deactivate g1 else g1), sys = s\<rparr>
              else
                Returns err
                  \<lparr>gfn = g1, sys = addMpathEvent c addMpathAct (the addedMpath) s\<rparr>))"

definition removeMountpath ::
  "'fs collab \<Rightarrow> string \<Rightarrow> 'fs targetrunner \<Rightarrow> (error option, 'fs targetrunner) outcome"
where
  "removeMountpath c mpath t =
     (let (gfnActive, g1) = Activate (gfn t)
      in case fs_Remove c mpath (redistributeMD c) (sys t) of
           Exits s \<Rightarrow> Exits \<lparr>gfn = g1, sys = s\<rparr>
         | Returns (removedMpath, err) s \<Rightarrow>
             (if err \<noteq> None \<or> removedMpath = None then
                Returns err
                  \<lparr>gfn = (if \<not> gfnActive then Deactivate g1 else g1), sys = s\<rparr>
              else
                Returns err
                  \<lparr>gfn = g1, sys = delMpathEvent c removeMpathAct (the removedMpath) s\<rparr>))"

text \<open>
  The four operations under one name, to state what holds of all of them: \<open>mutate\<close> is
  the registry call a wrapper makes, \<open>lifecycle\<close> the wrapper itself, its result kept in
  the shape the wrapper returns it.
\<close>

datatype mpop = OpAdd | OpRemove | OpEnable | OpDisable

datatype retval = BoolErr bool "error option" | ErrOnly "error option"

fun mutate ::
  "'fs collab \<Rightarrow> mpop \<Rightarrow> string \<Rightarrow> 'fs sys \<Rightarrow> (MountpathInfo option \<times> error option, 'fs sys) outcome"
where
  "mutate c OpAdd mpath s = fs_Add c mpath (si_ID c) (redistributeMD c) s"
| "mutate c OpRemove mpath s = fs_Remove c mpath (redistributeMD c) s"
| "mutate c OpEnable mpath s = fs_Enable c mpath (redistributeMD c) s"
| "mutate c OpDisable mpath s = fs_Disable c mpath (redistributeMD c) s"

fun boolErr :: "(bool \<times> error option, 's) outcome \<Rightarrow> (retval, 's) outcome" where
  "boolErr (Returns (b, e) s) = Returns (BoolErr b e) s"
| "boolErr (Exits s) = Exits s"

fun errOnly :: "(error option, 's) outcome \<Rightarrow> (retval, 's) outcome" where
  "errOnly (Returns e s) = Returns (ErrOnly e) s"
| "errOnly (Exits s) = Exits s"

fun lifecycle ::
  "'fs collab \<Rightarrow> mpop \<Rightarrow> string \<Rightarrow> 'fs targetrunner \<Rightarrow> (retval, 'fs targetrunner) outcome"
where
  "lifecycle c OpAdd mpath t = errOnly (addMountpath c mpath t)"
| "lifecycle c OpRemove mpath t = errOnly (removeMountpath c mpath t)"
| "lifecycle c OpEnable mpath t = boolErr (enableMountpath c mpath t)"
| "lifecycle c OpDisable mpath t = boolErr (disableMountpath c mpath t)"

text \<open>The action word a wrapper logs with, and the error a result carries.\<close>

fun actionOf :: "mpop \<Rightarrow> string" where
  "actionOf OpAdd = addMpathAct"
| "actionOf OpRemove = removeMpathAct"
| "actionOf OpEnable = enableMpathAct"
| "actionOf OpDisable = disableMpathAct"

fun errOf :: "retval \<Rightarrow> error option" where
  "errOf (BoolErr b e) = e"
| "errOf (ErrOnly e) = e"

fun changedOf :: "retval \<Rightarrow> bool option" where
  "changedOf (BoolErr b e) = Some b"
| "changedOf (ErrOnly e) = None"

subsection \<open>A registry to run the wrappers on\<close>

text \<open>
  Modelled from the spec: the \<^verbatim>\<open>fs\<close> package is not among the files at hand. The spec's
  registry holds two disjoint sets of mountpaths, available and disabled. \<open>Add\<close> fails
  on a known path and on an fsid already in use among the available ones; \<open>Remove\<close>
  takes a path out of either set and fails on an unknown one; \<open>Enable\<close> and \<open>Disable\<close>
  move a path between the sets, return nil and no error when there is nothing to do, and
  fail on an unknown path. On a real transition the hook runs once, before the new
  state is published. \<open>stat\<close> gives the fsid of a path; the remaining fields fix what the
  collaborators outside the registry answer.
\<close>

record world =
  available :: "MountpathInfo list"
  disabled :: "MountpathInfo list"
  stat :: "(string \<times> nat) list"
  bmdCopiesOK :: bool
  bmdFails :: "error option"
  vmdFails :: "error option"
  unregFails :: "error option"
  regFails :: "error option"

definition findPath :: "string \<Rightarrow> MountpathInfo list \<Rightarrow> MountpathInfo option" where
  "findPath p ms = find (\<lambda>m. Path m = p) ms"

definition dropPath :: "string \<Rightarrow> MountpathInfo list \<Rightarrow> MountpathInfo list" where
  "dropPath p ms = filter (\<lambda>m. Path m \<noteq> p) ms"

definition publish ::
  "world hook \<Rightarrow> world sys \<Rightarrow> MountpathInfo \<Rightarrow> (world \<Rightarrow> world)
     \<Rightarrow> (MountpathInfo option \<times> error option, world sys) outcome"
where
  "publish hk s m upd =
     (case hk s of
        Exits s1 \<Rightarrow> Exits s1
      | Returns _ s1 \<Rightarrow> Returns (Some m, None) (s1\<lparr>registry := upd (registry s1)\<rparr>))"

definition reg_Add ::
  "string \<Rightarrow> string \<Rightarrow> world hook \<Rightarrow> world sys
     \<Rightarrow> (MountpathInfo option \<times> error option, world sys) outcome"
where
  "reg_Add p tid hk s =
     (let w = registry s;
          m = \<lparr>Path = p, Fsid = (case map_of (stat w) p of Some f \<Rightarrow> f | None \<Rightarrow> 0)\<rparr>
      in if findPath p (available w) \<noteq> None \<or> findPath p (disabled w) \<noteq> None then
           Returns (None, Some (Error ''EEXIST'')) s
         else if Fsid m \<in> Fsid ` set (available w) then
           Returns (None, Some (Error ''EDUPFS'')) s
         else publish hk s m (\<lambda>w1. w1\<lparr>available := available w1 @ [m]\<rparr>))"

definition reg_Remove :: "world mutator" where
  "reg_Remove p hk s =
     (let w = registry s
      in case findPath p (available w @ disabled w) of
           None \<Rightarrow> Returns (None, Some (Error ''ENOENT'')) s
         | Some m \<Rightarrow>
             publish hk s m
               (\<lambda>w1. w1\<lparr>available := dropPath p (available w1),
                        disabled := dropPath p (disabled w1)\<rparr>))"

definition reg_Enable :: "world mutator" where
  "reg_Enable p hk s =
     (let w = registry s
      in if findPath p (available w) \<noteq> None then Returns (None, None) s
         else case findPath p (disabled w) of
                None \<Rightarrow> Returns (None, Some (Error ''ENOENT'')) s
              | Some m \<Rightarrow>
                  publish hk s m
                    (\<lambda>w1. w1\<lparr>available := available w1 @ [m],
                             disabled := dropPath p (disabled w1)\<rparr>))"

definition reg_Disable :: "world mutator" where
  "reg_Disable p hk s =
     (let w = registry s
      in if findPath p (disabled w) \<noteq> None then Returns (None, None) s
         else case findPath p (available w) of
                None \<Rightarrow> Returns (None, Some (Error ''ENOENT'')) s
              | Some m \<Rightarrow>
                  publish hk s m
                    (\<lambda>w1. w1\<lparr>available := dropPath p (available w1),
                             disabled := disabled w1 @ [m]\<rparr>))"

definition the_collab :: "world collab" where
  "the_collab =
     \<lparr>fs_Add = reg_Add, fs_Remove = reg_Remove, fs_Enable = reg_Enable,
      fs_Disable = reg_Disable,
      fs_Get = (\<lambda>w. (available w, disabled w)),
      hasEnoughBMDCopies = bmdCopiesOK,
      bmd_persist = (\<lambda>w. (bmdFails w, w)),
      fs_CreateNewVMD = (\<lambda>tid w. (vmdFails w, w)),
      t_disable = (\<lambda>w. (unregFails w, w)),
      t_enable = (\<lambda>w. (regFails w, w)),
      si_ID = ''t1'', si_String = ''t[t1]'', debugBuild = False\<rparr>"

definition world0 :: "MountpathInfo list \<Rightarrow> MountpathInfo list \<Rightarrow> world" where
  "world0 av dis =
     \<lparr>available = av, disabled = dis,
      stat = [(''/m1'', 1), (''/m2'', 2), (''/m3'', 2)],
      bmdCopiesOK = True, bmdFails = None, vmdFails = None,
      unregFails = None, regFails = None\<rparr>"

definition target0 :: "bool \<Rightarrow> world \<Rightarrow> world targetrunner" where
  "target0 g w = \<lparr>gfn = g, sys = \<lparr>registry = w, events = []\<rparr>\<rparr>"

definition m1 :: MountpathInfo where "m1 = \<lparr>Path = ''/m1'', Fsid = 1\<rparr>"
definition m2 :: MountpathInfo where "m2 = \<lparr>Path = ''/m2'', Fsid = 2\<rparr>"

section \<open>Notions the properties are stated with\<close>

text \<open>
  An id is maximal in a map when no key of the map weighs more; the maximum is unique
  when at most one key is maximal.
\<close>

definition maximal :: "(string \<Rightarrow> u32 \<Rightarrow> u32) \<Rightarrow> string \<Rightarrow> Smap \<Rightarrow> string \<Rightarrow> bool" where
  "maximal H name smap i = (\<forall>j \<in> fst ` set smap. weight H name j \<le> weight H name i)"

definition unique_max :: "(string \<Rightarrow> u32 \<Rightarrow> u32) \<Rightarrow> string \<Rightarrow> Smap \<Rightarrow> bool" where
  "unique_max H name smap =
     (\<forall>i \<in> fst ` set smap. \<forall>j \<in> fst ` set smap.
        maximal H name smap i \<and> maximal H name smap j \<longrightarrow> i = j)"

text \<open>A target in service, and one that has been decommissioned.\<close>

definition node :: "string \<Rightarrow> daemonInfo" where
  "node i = \<lparr>DaemonID = i, Role = Target, Flags = {}\<rparr>"

definition retired :: "string \<Rightarrow> daemonInfo" where
  "retired i = \<lparr>DaemonID = i, Role = Target, Flags = {Decommission}\<rparr>"

text \<open>
  What a wrapper hands back for a given \<open>changed\<close> and error: the pair for enable and
  disable, the error alone for add and remove.
\<close>

fun shape :: "mpop \<Rightarrow> bool \<Rightarrow> error option \<Rightarrow> retval" where
  "shape OpAdd changed err = ErrOnly err"
| "shape OpRemove changed err = ErrOnly err"
| "shape OpEnable changed err = BoolErr changed err"
| "shape OpDisable changed err = BoolErr changed err"

text \<open>The value a call returned, and the GFN flag as the caller finds it on return.\<close>

fun retOf :: "('a, 's) outcome \<Rightarrow> 'a option" where
  "retOf (Returns r s) = Some r"
| "retOf (Exits s) = None"

fun gfnAfter :: "('a, 'fs targetrunner) outcome \<Rightarrow> bool option" where
  "gfnAfter (Returns r t) = Some (gfn t)"
| "gfnAfter (Exits t) = None"



text \<open>The post-event routine a wrapper runs after a real transition.\<close>

fun postEvents :: "'fs collab \<Rightarrow> mpop \<Rightarrow> MountpathInfo \<Rightarrow> 'fs sys \<Rightarrow> 'fs sys" where
  "postEvents c OpAdd d s = addMpathEvent c addMpathAct d s"
| "postEvents c OpEnable d s = addMpathEvent c enableMpathAct d s"
| "postEvents c OpRemove d s = delMpathEvent c removeMpathAct d s"
| "postEvents c OpDisable d s = delMpathEvent c disableMpathAct d s"

text \<open>
  Three worlds to run the wrappers in: one whose only mountpath is disabled and whose
  re-registration fails, one with a single mountpath whose unregistration fails, and
  one that lacks BMD copies and cannot write the VMD.
\<close>

definition flaky :: world where
  "flaky = (world0 [] [m1])\<lparr>regFails := Some (Error ''timeout'')\<rparr>"

definition isolated :: world where
  "isolated = (world0 [m1] [])\<lparr>unregFails := Some (Error ''timeout'')\<rparr>"


section \<open>Properties of the placement\<close>

subsection \<open>The loop\<close>

text \<open>Nothing heavier than the running maximum: the loop keeps what it has.\<close>

lemma hrw_loop_keep:
  "\<forall>j \<in> fst ` set xs. weight H name j \<le> mx \<Longrightarrow> hrw_loop H name xs mx si = si"
  by (induction xs arbitrary: mx si) (auto simp: weight_def Let_def)

text \<open>
  Something heavier than the running maximum: the loop ends on an entry of the map that
  no key outweighs.
\<close>

lemma hrw_loop_pick:
  "\<exists>j \<in> fst ` set xs. mx < weight H name j \<Longrightarrow>
     \<exists>i s. hrw_loop H name xs mx si = Some s \<and> (i, s) \<in> set xs \<and> mx < weight H name i
        \<and> (\<forall>j \<in> fst ` set xs. weight H name j \<le> weight H name i)"
proof (induction xs arbitrary: mx si)
  case Nil
  then show ?case by simp
next
  case (Cons e rest)
  obtain a sa where e: "e = (a, sa)" by (cases e)
  let ?cs = "weight H name a"
  show ?case
  proof (cases "mx < ?cs")
    case True
    show ?thesis
    proof (cases "\<exists>j \<in> fst ` set rest. ?cs < weight H name j")
      case True
      from Cons.IH [OF True, of "Some sa"] obtain i s where
        r: "hrw_loop H name rest ?cs (Some sa) = Some s" "(i, s) \<in> set rest"
           "?cs < weight H name i" "\<forall>j \<in> fst ` set rest. weight H name j \<le> weight H name i"
        by blast
      from \<open>mx < ?cs\<close> r(3) have "mx < weight H name i" by simp
      moreover from r(3) have "?cs \<le> weight H name i" by simp
      ultimately show ?thesis
        using r \<open>mx < ?cs\<close> e by (auto simp: weight_def Let_def)
    next
      case False
      then have le: "\<forall>j \<in> fst ` set rest. weight H name j \<le> ?cs" by (auto simp: not_less)
      from hrw_loop_keep [OF le] have "hrw_loop H name rest ?cs (Some sa) = Some sa" .
      with \<open>mx < ?cs\<close> le e show ?thesis
        by (auto simp: weight_def Let_def intro!: exI [of _ a])
    qed
  next
    case False
    with Cons.prems e have ex: "\<exists>j \<in> fst ` set rest. mx < weight H name j" by auto
    from Cons.IH [OF ex, of si] obtain i s where
      r: "hrw_loop H name rest mx si = Some s" "(i, s) \<in> set rest"
         "mx < weight H name i" "\<forall>j \<in> fst ` set rest. weight H name j \<le> weight H name i"
      by blast
    from False r(3) have "?cs \<le> weight H name i" by simp
    with r False e show ?thesis
      by (auto simp: weight_def Let_def)
  qed
qed

lemma hrwTarget_nil:
  "\<forall>j \<in> fst ` set smap. weight H name j = 0 \<Longrightarrow> hrwTarget H name smap = None"
  unfolding hrwTarget_def by (rule hrw_loop_keep) simp

lemma hrwTarget_some:
  assumes "\<exists>j \<in> fst ` set smap. weight H name j \<noteq> 0"
  shows "\<exists>i s. hrwTarget H name smap = Some s \<and> (i, s) \<in> set smap \<and> weight H name i \<noteq> 0
           \<and> maximal H name smap i"
proof -
  from assms have "\<exists>j \<in> fst ` set smap. 0 < weight H name j"
    by (simp add: word_gt_0)
  from hrw_loop_pick [OF this, of None] show ?thesis
    unfolding hrwTarget_def maximal_def by (auto simp: word_gt_0)
qed

lemma hrwTarget_cases:
  "(hrwTarget H name smap = None \<and> (\<forall>j \<in> fst ` set smap. weight H name j = 0)) \<or>
   (\<exists>i s. hrwTarget H name smap = Some s \<and> (i, s) \<in> set smap \<and> maximal H name smap i)"
  using hrwTarget_nil [of smap H name] hrwTarget_some [of smap H name] by blast

text \<open>Changing the flags of the nodes changes nothing but the flags of the result.\<close>

lemma hrw_loop_flags:
  "hrw_loop H name (map (\<lambda>(i, s). (i, s\<lparr>Flags := f s\<rparr>)) smap) mx
       (map_option (\<lambda>s. s\<lparr>Flags := f s\<rparr>) si)
     = map_option (\<lambda>s. s\<lparr>Flags := f s\<rparr>) (hrw_loop H name smap mx si)"
proof (induction smap arbitrary: mx si)
  case Nil
  then show ?case by simp
next
  case (Cons e rest)
  obtain a sa where e: "e = (a, sa)" by (cases e)
  from Cons.IH [of "H (a @ '':'' @ name) LCG32" "Some sa"] Cons.IH [of mx si] e
  show ?case by (simp add: Let_def)
qed

text \<open>
  Something heavier than the running maximum: the loop ends on the first entry, in the
  order visited, that no key of the map outweighs.
\<close>

lemma hrw_loop_first:
  "\<exists>j \<in> fst ` set xs. mx < weight H name j \<Longrightarrow>
     hrw_loop H name xs mx si = map_option snd (find (\<lambda>e. maximal H name xs (fst e)) xs)"
proof (induction xs arbitrary: mx si)
  case Nil
  then show ?case by simp
next
  case (Cons e rest)
  obtain a sa where e: "e = (a, sa)" by (cases e)
  let ?cs = "weight H name a"
  show ?case
  proof (cases "\<exists>j \<in> fst ` set rest. ?cs < weight H name j")
    case True
    then obtain k where k: "k \<in> fst ` set rest" "?cs < weight H name k" by blast
    then have na: "\<not> maximal H name (e # rest) a"
      by (auto simp: maximal_def not_le intro!: bexI [of _ k])
    have agree: "maximal H name (e # rest) (fst x) = maximal H name rest (fst x)"
      if "x \<in> set rest" for x
    proof
      assume "maximal H name (e # rest) (fst x)"
      then show "maximal H name rest (fst x)" by (simp add: maximal_def)
    next
      assume m: "maximal H name rest (fst x)"
      with k(1) have "weight H name k \<le> weight H name (fst x)"
        unfolding maximal_def by blast
      with k(2) have "?cs \<le> weight H name (fst x)" by simp
      with m e show "maximal H name (e # rest) (fst x)" by (simp add: maximal_def)
    qed
    have f: "find (\<lambda>x. maximal H name (e # rest) (fst x)) (e # rest)
               = find (\<lambda>x. maximal H name rest (fst x)) rest"
      using na e agree by (simp cong: find_cong)
    show ?thesis
    proof (cases "mx < ?cs")
      case True
      from Cons.IH [OF \<open>\<exists>j \<in> fst ` set rest. ?cs < weight H name j\<close>, of "Some sa"] f e True
      show ?thesis by (simp add: weight_def)
    next
      case False
      with Cons.prems e have "\<exists>j \<in> fst ` set rest. mx < weight H name j" by auto
      from Cons.IH [OF this, of si] f e False
      show ?thesis by (simp add: weight_def)
    qed
  next
    case False
    then have le: "\<forall>j \<in> fst ` set rest. weight H name j \<le> ?cs" by (auto simp: not_less)
    with Cons.prems e have gt: "mx < ?cs" by (auto simp: not_less) 
    from le e have "maximal H name (e # rest) a" by (simp add: maximal_def)
    with e have f: "find (\<lambda>x. maximal H name (e # rest) (fst x)) (e # rest) = Some (a, sa)"
      by simp
    from hrw_loop_keep [OF le] have "hrw_loop H name rest ?cs (Some sa) = Some sa" .
    with gt f e show ?thesis by (simp add: weight_def)
  qed
qed

lemma hrwTarget_first:
  assumes "\<exists>j \<in> fst ` set smap. weight H name j \<noteq> 0"
  shows "hrwTarget H name smap
           = map_option snd (find (\<lambda>e. maximal H name smap (fst e)) smap)"
proof -
  from assms have "\<exists>j \<in> fst ` set smap. 0 < weight H name j" by (simp add: word_gt_0)
  from hrw_loop_first [OF this] show ?thesis by (simp add: hrwTarget_def)
qed

text \<open>Distinct keys and at most one maximal key: the order of the entries does not matter.\<close>

lemma hrwTarget_permuted:
  assumes "is_smap xs" and "mset ys = mset xs" and "unique_max H name xs"
  shows "hrwTarget H name ys = hrwTarget H name xs"
proof -
  from assms(2) have set: "set ys = set xs" by (metis set_mset_mset)
  then have mx: "maximal H name ys = maximal H name xs"
    by (simp add: maximal_def fun_eq_iff)
  from assms(1) have fn: "\<And>i s t. (i, s) \<in> set xs \<Longrightarrow> (i, t) \<in> set xs \<Longrightarrow> s = t"
    unfolding is_smap_def by (meson eq_key_imp_eq_value)
  show "hrwTarget H name ys = hrwTarget H name xs"
  proof (cases "\<forall>j \<in> fst ` set xs. weight H name j = 0")
    case True
    with set show ?thesis by (simp add: hrwTarget_nil)
  next
    case False
    then have ex: "\<exists>j \<in> fst ` set xs. weight H name j \<noteq> 0" by blast
    from hrwTarget_some [OF ex] obtain i s where
      x: "hrwTarget H name xs = Some s" "(i, s) \<in> set xs" "maximal H name xs i" by blast
    from ex set have "\<exists>j \<in> fst ` set ys. weight H name j \<noteq> 0" by simp
    from hrwTarget_some [OF this] obtain j t where
      y: "hrwTarget H name ys = Some t" "(j, t) \<in> set ys" "maximal H name ys j" by blast
    from x(2) have "i \<in> fst ` set xs" by force
    moreover from y(2) set have "j \<in> fst ` set xs" by force
    moreover from y(3) mx have "maximal H name xs j" by simp
    ultimately have "i = j" using assms(3) x(3) unfolding unique_max_def by blast
    with x(2) y(2) set fn have "s = t" by blast
    with x(1) y(1) show ?thesis by simp
  qed
qed

subsection \<open>Digests of the names used below\<close>

lemma digest_a: "ChecksumString32S ''a:image42'' LCG32 = 3845915917" by code_simp
lemma digest_b: "ChecksumString32S ''b:image42'' LCG32 = 891232046" by code_simp
lemma digest_c: "ChecksumString32S ''c:image42'' LCG32 = 3564092594" by code_simp
lemma digest_t61430: "ChecksumString32S ''t61430:obj'' LCG32 = 2353118308" by code_simp
lemma digest_t100005: "ChecksumString32S ''t100005:obj'' LCG32 = 2353118308" by code_simp
lemma digest_t103: "ChecksumString32S ''t103:o194l60'' LCG32 = 0" by code_simp

lemmas digests = digest_a digest_b digest_c digest_t61430 digest_t100005 digest_t103

text \<open>
  The digest of \<open>t103:o194l60\<close> is 0, which is what \<^verbatim>\<open>max\<close> starts as: with \<open>t103\<close> the
  only target, no weight is greater than \<^verbatim>\<open>max\<close> and the result stays nil although the map
  is not empty.
\<close>

lemma hrwTarget_zero_weight_nil:
  "hrwTarget ChecksumString32S ''o194l60'' [(''t103'', node ''t103'')] = None"
  by (simp add: hrwTarget_def digests)

subsection \<open>Stability under the iteration order\<close>

text \<open>
  Claim C1, as stated, fails: \<^verbatim>\<open>hrwTarget\<close> has no tie-break. The keys \<open>t61430\<close> and
  \<open>t100005\<close> weigh the same for the object \<open>obj\<close>; the loop replaces its candidate on
  a strictly greater weight only, so whichever entry \<^verbatim>\<open>range\<close> visits first is returned,
  and the two orders of this one map give two different targets.
\<close>

theorem hrwTarget_tie_order_dependent:
  "mset [(''t100005'', node ''t100005''), (''t61430'', node ''t61430'')]
     = mset [(''t61430'', node ''t61430''), (''t100005'', node ''t100005'')]
   \<and> hrwTarget ChecksumString32S ''obj''
       [(''t61430'', node ''t61430''), (''t100005'', node ''t100005'')] = Some (node ''t61430'')
   \<and> hrwTarget ChecksumString32S ''obj''
       [(''t100005'', node ''t100005''), (''t61430'', node ''t61430'')] = Some (node ''t100005'')
   \<and> node ''t61430'' \<noteq> node ''t100005''"
  by (simp add: hrwTarget_def digests node_def)

text \<open>
  Claim C1, amended: for every object name and every map, a target that \<^verbatim>\<open>hrwTarget\<close>
  returns is an entry of the map whose weight \<open>H (id + ":" + name, LCG32)\<close> no key of
  the map exceeds. Whenever some key has a nonzero weight, the target returned is the
  first entry, in the order \<^verbatim>\<open>range\<close> visits the map, whose weight is maximal: ties are not
  broken by id. Hence the result is the same for every permutation of the iteration
  order when at most one key of the map has the maximal weight.
\<close>

theorem hrwTarget_first_maximal:
  "(\<forall>s. hrwTarget H name xs = Some s \<longrightarrow> (\<exists>i. (i, s) \<in> set xs \<and> maximal H name xs i))
   \<and> ((\<exists>j \<in> fst ` set xs. weight H name j \<noteq> 0) \<longrightarrow>
        hrwTarget H name xs = map_option snd (find (\<lambda>e. maximal H name xs (fst e)) xs))
   \<and> (is_smap xs \<and> mset ys = mset xs \<and> unique_max H name xs \<longrightarrow>
        hrwTarget H name ys = hrwTarget H name xs)"
proof (intro conjI)
  show "\<forall>s. hrwTarget H name xs = Some s \<longrightarrow> (\<exists>i. (i, s) \<in> set xs \<and> maximal H name xs i)"
    using hrwTarget_cases [of H name xs] by auto
  show "(\<exists>j \<in> fst ` set xs. weight H name j \<noteq> 0) \<longrightarrow>
        hrwTarget H name xs = map_option snd (find (\<lambda>e. maximal H name xs (fst e)) xs)"
    using hrwTarget_first [of xs H name] by blast
  show "is_smap xs \<and> mset ys = mset xs \<and> unique_max H name xs \<longrightarrow>
        hrwTarget H name ys = hrwTarget H name xs"
    using hrwTarget_permuted [of xs ys H name] by blast
qed

text \<open>
  Claim C1, witness: the targets \<open>a\<close>, \<open>b\<close>, \<open>c\<close> and the object \<open>image42\<close>. The three
  weights differ and none is zero; \<open>a\<close> has the greatest and is returned in both orders.
\<close>

theorem hrwTarget_first_maximal_witness:
  "(\<exists>j \<in> fst ` set [(''a'', node ''a''), (''b'', node ''b''), (''c'', node ''c'')].
       weight ChecksumString32S ''image42'' j \<noteq> 0)
   \<and> is_smap [(''a'', node ''a''), (''b'', node ''b''), (''c'', node ''c'')]
   \<and> mset [(''c'', node ''c''), (''a'', node ''a''), (''b'', node ''b'')]
       = mset [(''a'', node ''a''), (''b'', node ''b''), (''c'', node ''c'')]
   \<and> unique_max ChecksumString32S ''image42''
       [(''a'', node ''a''), (''b'', node ''b''), (''c'', node ''c'')]
   \<and> hrwTarget ChecksumString32S ''image42''
       [(''a'', node ''a''), (''b'', node ''b''), (''c'', node ''c'')] = Some (node ''a'')
   \<and> hrwTarget ChecksumString32S ''image42''
       [(''c'', node ''c''), (''a'', node ''a''), (''b'', node ''b'')] = Some (node ''a'')
   \<and> maximal ChecksumString32S ''image42''
       [(''a'', node ''a''), (''b'', node ''b''), (''c'', node ''c'')] ''a''"
proof -
  let ?xs = "[(''a'', node ''a''), (''b'', node ''b''), (''c'', node ''c'')]"
  let ?ys = "[(''c'', node ''c''), (''a'', node ''a''), (''b'', node ''b'')]"
  have 0: "\<exists>j \<in> fst ` set ?xs. weight ChecksumString32S ''image42'' j \<noteq> 0"
    by (simp add: weight_def digests)
  have 1: "is_smap ?xs" by (simp add: is_smap_def)
  have 2: "mset ?ys = mset ?xs" by simp
  have 3: "unique_max ChecksumString32S ''image42'' ?xs"
    by (simp add: unique_max_def maximal_def weight_def digests)
  have 4: "maximal ChecksumString32S ''image42'' ?xs ''a''"
    by (simp add: maximal_def weight_def digests)
  have 5: "find (\<lambda>e. maximal ChecksumString32S ''image42'' ?xs (fst e)) ?xs
             = Some (''a'', node ''a'')"
    using 4 by simp
  from hrwTarget_first_maximal [of ChecksumString32S "''image42''" ?xs ?ys] 0 1 2 3 4 5
  show ?thesis by simp
qed

subsection \<open>Membership of the result\<close>

text \<open>
  Claim C3, as stated, fails on the empty map: the loop body never runs and the named
  result is returned as it was declared, nil.
\<close>

theorem hrwTarget_empty_nil: "hrwTarget ChecksumString32S ''image42'' [] = None"
  by (simp add: hrwTarget_def)

text \<open>
  Claim C3, amended: \<^verbatim>\<open>hrwTarget\<close> never returns a node outside the map; it returns a
  node of the map whenever some key of the map has a nonzero weight; on the empty map
  it returns nil.
\<close>

theorem hrwTarget_member:
  "hrwTarget H name [] = None
   \<and> (\<forall>s. hrwTarget H name smap = Some s \<longrightarrow> (\<exists>i. (i, s) \<in> set smap))
   \<and> ((\<exists>j \<in> fst ` set smap. weight H name j \<noteq> 0) \<longrightarrow>
        (\<exists>i s. hrwTarget H name smap = Some s \<and> (i, s) \<in> set smap))"
proof (intro conjI)
  show "hrwTarget H name [] = None" by (simp add: hrwTarget_def)
  show "\<forall>s. hrwTarget H name smap = Some s \<longrightarrow> (\<exists>i. (i, s) \<in> set smap)"
    using hrwTarget_cases [of H name smap] by auto
  show "(\<exists>j \<in> fst ` set smap. weight H name j \<noteq> 0) \<longrightarrow>
        (\<exists>i s. hrwTarget H name smap = Some s \<and> (i, s) \<in> set smap)"
    using hrwTarget_some [of smap H name] by blast
qed

text \<open>
  Claim C3, witness: with the targets \<open>a\<close> and \<open>b\<close> the object \<open>image42\<close> has a nonzero
  weight, so a target is returned and it is an entry of the map.
\<close>

theorem hrwTarget_member_witness:
  "(\<exists>j \<in> fst ` set [(''a'', node ''a''), (''b'', node ''b'')].
       weight ChecksumString32S ''image42'' j \<noteq> 0)
   \<and> (\<exists>i s. hrwTarget ChecksumString32S ''image42'' [(''a'', node ''a''), (''b'', node ''b'')]
              = Some s
            \<and> (i, s) \<in> set [(''a'', node ''a''), (''b'', node ''b'')])"
proof -
  let ?xs = "[(''a'', node ''a''), (''b'', node ''b'')]"
  have 1: "\<exists>j \<in> fst ` set ?xs. weight ChecksumString32S ''image42'' j \<noteq> 0"
    by (simp add: weight_def digests)
  from hrwTarget_member [of ChecksumString32S "''image42''" ?xs] 1 show ?thesis by blast
qed

subsection \<open>Node flags\<close>

text \<open>
  Claim C4, as stated, fails: \<^verbatim>\<open>hrwTarget\<close> does not look at a node's flags. A map whose
  only target is decommissioned yields that target.
\<close>

theorem hrwTarget_returns_decommissioned:
  "hrwTarget ChecksumString32S ''image42'' [(''a'', retired ''a'')] = Some (retired ''a'')
   \<and> Decommission \<in> Flags (retired ''a'')"
  by (simp add: hrwTarget_def digests retired_def)

text \<open>
  Claim C4, amended: the flags play no part in the selection. Whatever flags the nodes of
  the map are given, decommissioned or not, \<^verbatim>\<open>hrwTarget\<close> picks the same entry; every node
  of the map is a candidate.
\<close>

theorem hrwTarget_ignores_flags:
  "hrwTarget H name (map (\<lambda>(i, s). (i, s\<lparr>Flags := f s\<rparr>)) smap)
     = map_option (\<lambda>s. s\<lparr>Flags := f s\<rparr>) (hrwTarget H name smap)"
  unfolding hrwTarget_def using hrw_loop_flags [of H name f smap 0 None] by simp

section \<open>Properties of the mountpath lifecycle\<close>

subsection \<open>What a wrapper does after the registry call\<close>

text \<open>An error or a nil descriptor: the wrapper restores the GFN flag and does nothing else.\<close>

lemma lifecycle_failed:
  assumes "mutate c op mpath (sys t) = Returns (d, err) s" and "err \<noteq> None \<or> d = None"
  shows "lifecycle c op mpath t = Returns (shape op False err) \<lparr>gfn = gfn t, sys = s\<rparr>"
  using assms
  by (cases op)
     (auto simp: addMountpath_def removeMountpath_def enableMountpath_def
        disableMountpath_def Activate_def Deactivate_def)

text \<open>A descriptor and no error: the wrapper runs the post-events and leaves the flag set.\<close>

lemma lifecycle_changed:
  assumes "mutate c op mpath (sys t) = Returns (Some d, None) s"
  shows "lifecycle c op mpath t
           = Returns (shape op True None) \<lparr>gfn = True, sys = postEvents c op d s\<rparr>"
  using assms
  by (cases op)
     (auto simp: addMountpath_def removeMountpath_def enableMountpath_def
        disableMountpath_def Activate_def Deactivate_def)

lemma delMpathEvent_zero:
  assumes "fst (fs_Get c (registry s)) = []"
  shows "delMpathEvent c action d s =
           \<lparr>registry = snd (t_disable c (registry s)),
            events = events s @
              [AbortAllMountpathsXactions, Go (EvictLomCache (Path d)), TargetDisable,
               Errorf (case fst (t_disable c (registry s)) of
                         None \<Rightarrow> action @ '' the last available mountpath and unregistered target ''
                                   @ si_String c @ '' (self)''
                       | Some e \<Rightarrow> action
                                   @ '' the last available mountpath, failed to unregister target ''
                                   @ si_String c @ '' (self), err: '' @ errmsg e)]\<rparr>"
  using assms
  by (cases "fs_Get c (registry s)"; cases "t_disable c (registry s)")
     (auto simp: delMpathEvent_def checkZeroMountpaths_def emit_def split: option.splits)

lemma delMpathEvent_some:
  assumes "fst (fs_Get c (registry s)) \<noteq> []"
  shows "delMpathEvent c action d s =
           s\<lparr>events := events s @
              [AbortAllMountpathsXactions, Go (EvictLomCache (Path d)), Go (PostEvent ''del-mp'')]\<rparr>"
  using assms
  by (cases "fs_Get c (registry s)")
     (auto simp: delMpathEvent_def checkZeroMountpaths_def emit_def)

lemma addMpathEvent_many:
  assumes "1 < length (fst (fs_Get c (registry s)))"
  shows "addMpathEvent c action d s =
           s\<lparr>events := events s @
              [AbortAllMountpathsXactions, Go (PostEvent ''add-mp''),
               Infof (action @ '' mountpath '' @ Path d)]\<rparr>"
  using assms
  by (cases "fs_Get c (registry s)")
     (auto simp: addMpathEvent_def checkEnable_def emit_def)

lemma addMpathEvent_first:
  assumes "\<not> 1 < length (fst (fs_Get c (registry s)))"
  shows "addMpathEvent c action d s =
           \<lparr>registry = snd (t_enable c (registry s)),
            events = events s @
              [AbortAllMountpathsXactions, Go (PostEvent ''add-mp''),
               Infof (action @ '' the first mountpath '' @ Path d), TargetEnable]
              @ (case fst (t_enable c (registry s)) of
                   None \<Rightarrow> []
                 | Some e \<Rightarrow> [Errorf (''Failed to re-register '' @ si_String c
                                @ '' (self), err: '' @ errmsg e)])\<rparr>"
  using assms
  by (cases "fs_Get c (registry s)"; cases "t_enable c (registry s)")
     (auto simp: addMpathEvent_def checkEnable_def emit_def split: option.splits)

subsection \<open>Runs of the registry\<close>

lemmas run_defs =
  target0_def world0_def the_collab_def reg_Add_def reg_Remove_def reg_Enable_def
  reg_Disable_def publish_def redistributeMD_def findPath_def dropPath_def emit_def
  m1_def m2_def fatal_def Let_def

lemma run_add_first:
  "mutate the_collab OpAdd ''/m1'' (sys (target0 g (world0 [] [])))
     = Returns (Some m1, None) \<lparr>registry = world0 [m1] [], events = [CreateNewVMD ''t1'']\<rparr>"
  by (simp add: run_defs)

lemma run_add_known:
  "mutate the_collab OpAdd ''/m1'' (sys (target0 g (world0 [m1] [])))
     = Returns (None, Some (Error ''EEXIST'')) \<lparr>registry = world0 [m1] [], events = []\<rparr>"
  by (simp add: run_defs)

lemma run_remove_last:
  "mutate the_collab OpRemove ''/m1'' (sys (target0 g (world0 [m1] [])))
     = Returns (Some m1, None) \<lparr>registry = world0 [] [], events = [CreateNewVMD ''t1'']\<rparr>"
  by (simp add: run_defs)

lemma run_disable_isolated:
  "mutate the_collab OpDisable ''/m1'' (sys (target0 g isolated))
     = Returns (Some m1, None)
         \<lparr>registry = (world0 [] [m1])\<lparr>unregFails := Some (Error ''timeout'')\<rparr>,
          events = [CreateNewVMD ''t1'']\<rparr>"
  by (simp add: run_defs isolated_def)

lemma run_enable_noop:
  "mutate the_collab OpEnable ''/m1'' (sys (target0 g (world0 [m1] [])))
     = Returns (None, None) \<lparr>registry = world0 [m1] [], events = []\<rparr>"
  by (simp add: run_defs)

lemma run_enable_second:
  "mutate the_collab OpEnable ''/m1'' (sys (target0 g (world0 [m2] [m1])))
     = Returns (Some m1, None) \<lparr>registry = world0 [m2, m1] [], events = [CreateNewVMD ''t1'']\<rparr>"
  by (simp add: run_defs)

lemma run_enable_flaky:
  "mutate the_collab OpEnable ''/m1'' (sys (target0 g flaky))
     = Returns (Some m1, None)
         \<lparr>registry = (world0 [m1] [])\<lparr>regFails := Some (Error ''timeout'')\<rparr>,
          events = [CreateNewVMD ''t1'']\<rparr>"
  by (simp add: run_defs flaky_def)

subsection \<open>The GFN flag across a call\<close>

text \<open>
  Claim C2, as stated, fails on the successful exit: no wrapper deactivates the GFN after
  a real transition. Adding the first mountpath to a target whose flag is clear returns
  with the flag set.
\<close>

theorem gfn_stays_active_after_add:
  "gfn (target0 False (world0 [] [])) = False
   \<and> gfnAfter (lifecycle the_collab OpAdd ''/m1'' (target0 False (world0 [] []))) = Some True"
  using lifecycle_changed [OF run_add_first [of False]] by (simp add: target0_def)

text \<open>
  Claim C2, amended: for each of add, remove, enable and disable and every starting GFN
  state, when the registry mutator returns an error or a nil descriptor the GFN flag
  found after the wrapper returns equals its value before the call; when the mutator
  reports a real transition the flag is set on return, whatever it was before.
\<close>

theorem gfn_after_lifecycle:
  assumes "mutate c op mpath (sys t) = Returns (d, err) s"
  shows "gfnAfter (lifecycle c op mpath t)
           = Some (if err \<noteq> None \<or> d = None then gfn t else True)"
proof (cases "err \<noteq> None \<or> d = None")
  case True
  from lifecycle_failed [OF assms True] True show ?thesis by simp
next
  case False
  then obtain m where "d = Some m" "err = None" by auto
  with lifecycle_changed [of c op mpath t m s] assms show ?thesis by simp
qed

text \<open>
  Claim C2, witness: enabling an enabled mountpath with the flag clear leaves it clear,
  adding a known mountpath with the flag set leaves it set, and removing a mountpath
  with the flag clear returns with the flag set.
\<close>

theorem gfn_after_lifecycle_witness:
  "gfnAfter (lifecycle the_collab OpEnable ''/m1'' (target0 False (world0 [m1] []))) = Some False
   \<and> gfnAfter (lifecycle the_collab OpAdd ''/m1'' (target0 True (world0 [m1] []))) = Some True
   \<and> gfnAfter (lifecycle the_collab OpRemove ''/m1'' (target0 False (world0 [m1] []))) = Some True"
  using gfn_after_lifecycle [OF run_enable_noop [of False]]
    gfn_after_lifecycle [OF run_add_known [of True]]
    gfn_after_lifecycle [OF run_remove_last [of False]]
  by (simp add: target0_def)

text \<open>
  Claim C10: when the registry mutator reports a real transition (a descriptor and no
  error), the GFN flag is set at the moment the wrapper returns, for each of the four
  wrappers and whatever the flag was at entry.
\<close>

theorem gfn_active_after_transition:
  assumes "mutate c op mpath (sys t) = Returns (Some d, None) s"
  shows "gfnAfter (lifecycle c op mpath t) = Some True"
  using lifecycle_changed [OF assms] by simp

text \<open>
  Claim C10, witness: a first add with the flag clear, a last remove with the flag set, and
  an enable with the flag clear all return with the flag set.
\<close>

theorem gfn_active_after_transition_witness:
  "gfnAfter (lifecycle the_collab OpAdd ''/m1'' (target0 False (world0 [] []))) = Some True
   \<and> gfnAfter (lifecycle the_collab OpRemove ''/m1'' (target0 True (world0 [m1] []))) = Some True
   \<and> gfnAfter (lifecycle the_collab OpEnable ''/m1'' (target0 False (world0 [m2] [m1]))) = Some True"
  using gfn_active_after_transition [OF run_add_first [of False]]
    gfn_active_after_transition [OF run_remove_last [of True]]
    gfn_active_after_transition [OF run_enable_second [of False]]
  by simp

subsection \<open>No-op and error\<close>

text \<open>
  Claim C5, as stated, fails for add and remove: they have no \<open>changed\<close> result. Adding a
  mountpath that is already known returns the registry's error and nothing else.
\<close>

theorem addMountpath_failed_no_changed:
  "retOf (lifecycle the_collab OpAdd ''/m1'' (target0 False (world0 [m1] [])))
     = Some (ErrOnly (Some (Error ''EEXIST'')))
   \<and> changedOf (ErrOnly (Some (Error ''EEXIST''))) \<noteq> Some False"
  using lifecycle_failed [OF run_add_known [of False]] by simp

text \<open>
  Claim C5, amended: when the registry mutator returns a nil descriptor or an error, the
  wrapper leaves everything but the GFN as the mutator left it (it aborts no xaction,
  starts no goroutine, logs nothing, registers and unregisters nothing), the GFN flag is
  back at its value before the call (so it was deactivated exactly when the wrapper's own
  \<open>Activate\<close> had set it), and the wrapper returns the mutator's error: as
  \<open>(false, err)\<close> from enable and disable, as \<open>err\<close> alone from add and remove.
\<close>

theorem lifecycle_failed_quiet:
  assumes "mutate c op mpath (sys t) = Returns (d, err) s" and "err \<noteq> None \<or> d = None"
  shows "lifecycle c op mpath t = Returns (shape op False err) \<lparr>gfn = gfn t, sys = s\<rparr>"
  using assms by (rule lifecycle_failed)

text \<open>
  Claim C5, witness: enabling an enabled mountpath is a no-op that returns
  \<open>(false, nil)\<close>, adding a known one returns the error; both leave the target as it was.
\<close>

theorem lifecycle_failed_quiet_witness:
  "lifecycle the_collab OpEnable ''/m1'' (target0 False (world0 [m1] []))
     = Returns (BoolErr False None) (target0 False (world0 [m1] []))
   \<and> lifecycle the_collab OpAdd ''/m1'' (target0 True (world0 [m1] []))
     = Returns (ErrOnly (Some (Error ''EEXIST''))) (target0 True (world0 [m1] []))"
  using lifecycle_failed_quiet [OF run_enable_noop [of False]]
    lifecycle_failed_quiet [OF run_add_known [of True]]
  by (simp add: target0_def)

subsection \<open>What the wrappers return\<close>

text \<open>
  Claim C9, as stated, fails for add and remove, which return an error and no pair: the
  first add on an empty target, a real transition, returns nil and not \<open>(true, nil)\<close>.
\<close>

theorem addMountpath_returns_error_only:
  "retOf (lifecycle the_collab OpAdd ''/m1'' (target0 False (world0 [] [])))
     = Some (ErrOnly None)
   \<and> ErrOnly None \<noteq> BoolErr True None"
  using lifecycle_changed [OF run_add_first [of False]] by simp

text \<open>
  Claim C9, amended: enable and disable return a pair \<open>(changed, error)\<close>, \<open>(false, nil)\<close>
  on a local no-op and \<open>(true, nil)\<close> on a real transition, whatever fails downstream;
  add and remove return the error alone, nil in both cases.
\<close>

theorem lifecycle_return_shape:
  assumes "mutate c op mpath (sys t) = Returns (d, None) s"
  shows "retOf (lifecycle c op mpath t) = Some (shape op (d \<noteq> None) None)"
proof (cases d)
  case None
  with lifecycle_failed [of c op mpath t d None s] assms show ?thesis by simp
next
  case (Some m)
  with lifecycle_changed [of c op mpath t m s] assms show ?thesis by simp
qed

text \<open>
  Claim C9, witness: enabling an enabled mountpath returns \<open>(false, nil)\<close>; enabling the
  only mountpath while the re-registration fails returns \<open>(true, nil)\<close>; removing a
  mountpath returns nil.
\<close>

theorem lifecycle_return_shape_witness:
  "retOf (lifecycle the_collab OpEnable ''/m1'' (target0 False (world0 [m1] [])))
     = Some (BoolErr False None)
   \<and> retOf (lifecycle the_collab OpEnable ''/m1'' (target0 False flaky))
     = Some (BoolErr True None)
   \<and> retOf (lifecycle the_collab OpRemove ''/m1'' (target0 False (world0 [m1] [])))
     = Some (ErrOnly None)"
  using lifecycle_return_shape [OF run_enable_noop [of False]]
    lifecycle_return_shape [OF run_enable_flaky [of False]]
    lifecycle_return_shape [OF run_remove_last [of False]]
  by simp

subsection \<open>The last and the first mountpath\<close>

text \<open>
  Claim C6: when a remove or a disable is a real transition after which \<^verbatim>\<open>fs.Get\<close> lists no
  available mountpath, the wrapper aborts the xactions, starts the cache eviction, calls
  \<^verbatim>\<open>g.t.disable()\<close> once and logs one line, worded differently for a failed and for a
  successful unregistration; it starts no resilver and MakeNCopies goroutine, and it
  returns no error even when the unregistration failed.
\<close>

theorem zero_mountpaths_self_disable:
  assumes "op = OpRemove \<or> op = OpDisable"
    and "mutate c op mpath (sys t) = Returns (Some d, None) s"
    and "fst (fs_Get c (registry s)) = []"
  shows "lifecycle c op mpath t =
           Returns (shape op True None)
             \<lparr>gfn = True,
              sys = \<lparr>registry = snd (t_disable c (registry s)),
                     events = events s @
                       [AbortAllMountpathsXactions, Go (EvictLomCache (Path d)), TargetDisable,
                        Errorf (case fst (t_disable c (registry s)) of
                           None \<Rightarrow> actionOf op
                             @ '' the last available mountpath and unregistered target ''
                             @ si_String c @ '' (self)''
                         | Some e \<Rightarrow> actionOf op
                             @ '' the last available mountpath, failed to unregister target ''
                             @ si_String c @ '' (self), err: '' @ errmsg e)]\<rparr>\<rparr>
         \<and> errOf (shape op True None) = None
         \<and> actionOf op @ '' the last available mountpath and unregistered target ''
              @ si_String c @ '' (self)''
            \<noteq> actionOf op @ '' the last available mountpath, failed to unregister target ''
              @ si_String c @ '' (self), err: '' @ errmsg e"
proof -
  from assms(1) have "postEvents c op d s = delMpathEvent c (actionOf op) d s" by auto
  with lifecycle_changed [OF assms(2)] delMpathEvent_zero [OF assms(3), of "actionOf op" d]
  have "lifecycle c op mpath t =
           Returns (shape op True None)
             \<lparr>gfn = True,
              sys = \<lparr>registry = snd (t_disable c (registry s)),
                     events = events s @
                       [AbortAllMountpathsXactions, Go (EvictLomCache (Path d)), TargetDisable,
                        Errorf (case fst (t_disable c (registry s)) of
                           None \<Rightarrow> actionOf op
                             @ '' the last available mountpath and unregistered target ''
                             @ si_String c @ '' (self)''
                         | Some e \<Rightarrow> actionOf op
                             @ '' the last available mountpath, failed to unregister target ''
                             @ si_String c @ '' (self), err: '' @ errmsg e)]\<rparr>\<rparr>"
    by simp
  moreover from assms(1) have "errOf (shape op True None) = None" by auto
  ultimately show ?thesis by simp
qed

text \<open>
  Claim C6, witness: removing the only mountpath unregisters the target and returns nil;
  disabling the only mountpath while the unregistration fails logs the failure and
  returns \<open>(true, nil)\<close>. Neither run starts the resilver goroutine.
\<close>

theorem zero_mountpaths_self_disable_witness:
  "lifecycle the_collab OpRemove ''/m1'' (target0 False (world0 [m1] []))
     = Returns (ErrOnly None)
         \<lparr>gfn = True,
          sys = \<lparr>registry = world0 [] [],
                 events = [CreateNewVMD ''t1'', AbortAllMountpathsXactions,
                    Go (EvictLomCache ''/m1''), TargetDisable,
                    Errorf ''Removed the last available mountpath and unregistered target t[t1] (self)'']\<rparr>\<rparr>
   \<and> lifecycle the_collab OpDisable ''/m1'' (target0 False isolated)
     = Returns (BoolErr True None)
         \<lparr>gfn = True,
          sys = \<lparr>registry = (world0 [] [m1])\<lparr>unregFails := Some (Error ''timeout'')\<rparr>,
                 events = [CreateNewVMD ''t1'', AbortAllMountpathsXactions,
                    Go (EvictLomCache ''/m1''), TargetDisable,
                    Errorf ''Disabled the last available mountpath, failed to unregister target t[t1] (self), err: timeout'']\<rparr>\<rparr>"
proof -
  have a: "OpRemove = OpRemove \<or> OpRemove = OpDisable"
    and b: "OpDisable = OpRemove \<or> OpDisable = OpDisable" by simp_all
  have 1: "fst (fs_Get the_collab
             (registry \<lparr>registry = world0 [] [], events = [CreateNewVMD ''t1'']\<rparr>)) = []"
    by (simp add: the_collab_def world0_def)
  have 2: "fst (fs_Get the_collab
             (registry \<lparr>registry = (world0 [] [m1])\<lparr>unregFails := Some (Error ''timeout'')\<rparr>,
                events = [CreateNewVMD ''t1'']\<rparr>)) = []"
    by (simp add: the_collab_def world0_def)
  from zero_mountpaths_self_disable [OF a run_remove_last [of False] 1]
    zero_mountpaths_self_disable [OF b run_disable_isolated [of False] 2]
  show ?thesis
    by (simp add: the_collab_def world0_def m1_def removeMpathAct_def disableMpathAct_def)
qed

text \<open>
  Claim C7: when an add or an enable is a real transition, and the registry lists the
  mountpath among the available ones afterwards, the wrapper calls \<^verbatim>\<open>g.t.enable()\<close> exactly
  when one mountpath is available. It then logs the "first mountpath" line, which differs
  from the line for a further mountpath, and a failed re-registration adds an error line
  and is not returned.
\<close>

theorem first_mountpath_self_enable:
  assumes "op = OpAdd \<or> op = OpEnable"
    and "mutate c op mpath (sys t) = Returns (Some d, None) s"
    and "Path d \<in> Path ` set (fst (fs_Get c (registry s)))"
  shows "lifecycle c op mpath t =
           Returns (shape op True None)
             \<lparr>gfn = True,
              sys =
                (if length (fst (fs_Get c (registry s))) = 1 then
                   \<lparr>registry = snd (t_enable c (registry s)),
                    events = events s @
                      [AbortAllMountpathsXactions, Go (PostEvent ''add-mp''),
                       Infof (actionOf op @ '' the first mountpath '' @ Path d), TargetEnable]
                      @ (case fst (t_enable c (registry s)) of
                           None \<Rightarrow> []
                         | Some e \<Rightarrow> [Errorf (''Failed to re-register '' @ si_String c
                                        @ '' (self), err: '' @ errmsg e)])\<rparr>
                 else
                   \<lparr>registry = registry s,
                    events = events s @
                      [AbortAllMountpathsXactions, Go (PostEvent ''add-mp''),
                       Infof (actionOf op @ '' mountpath '' @ Path d)]\<rparr>)\<rparr>
         \<and> errOf (shape op True None) = None
         \<and> actionOf op @ '' the first mountpath '' @ Path d
             \<noteq> actionOf op @ '' mountpath '' @ Path d"
proof -
  let ?n = "length (fst (fs_Get c (registry s)))"
  from assms(3) have pos: "?n \<noteq> 0" by auto
  from assms(1) have pe: "postEvents c op d s = addMpathEvent c (actionOf op) d s" by auto
  from assms(1) have e: "errOf (shape op True None) = None" by auto
  show ?thesis
  proof (cases "?n = 1")
    case True
    then have "\<not> 1 < ?n" by simp
    from addMpathEvent_first [OF this, of "actionOf op" d] lifecycle_changed [OF assms(2)] pe e True
    show ?thesis by simp
  next
    case False
    with pos have "1 < ?n" by arith
    from addMpathEvent_many [OF this, of "actionOf op" d] lifecycle_changed [OF assms(2)] pe e False
    show ?thesis by (cases s) simp
  qed
qed

text \<open>
  Claim C7, witness: the first add on an empty target re-registers; enabling a second
  mountpath does not; enabling the only mountpath while the re-registration fails logs
  the failure and still returns \<open>(true, nil)\<close>.
\<close>

theorem first_mountpath_self_enable_witness:
  "lifecycle the_collab OpAdd ''/m1'' (target0 False (world0 [] []))
     = Returns (ErrOnly None)
         \<lparr>gfn = True,
          sys = \<lparr>registry = world0 [m1] [],
                 events = [CreateNewVMD ''t1'', AbortAllMountpathsXactions,
                    Go (PostEvent ''add-mp''), Infof ''Added the first mountpath /m1'',
                    TargetEnable]\<rparr>\<rparr>
   \<and> lifecycle the_collab OpEnable ''/m1'' (target0 False (world0 [m2] [m1]))
     = Returns (BoolErr True None)
         \<lparr>gfn = True,
          sys = \<lparr>registry = world0 [m2, m1] [],
                 events = [CreateNewVMD ''t1'', AbortAllMountpathsXactions,
                    Go (PostEvent ''add-mp''), Infof ''Enabled mountpath /m1'']\<rparr>\<rparr>
   \<and> lifecycle the_collab OpEnable ''/m1'' (target0 False flaky)
     = Returns (BoolErr True None)
         \<lparr>gfn = True,
          sys = \<lparr>registry = (world0 [m1] [])\<lparr>regFails := Some (Error ''timeout'')\<rparr>,
                 events = [CreateNewVMD ''t1'', AbortAllMountpathsXactions,
                    Go (PostEvent ''add-mp''), Infof ''Enabled the first mountpath /m1'',
                    TargetEnable,
                    Errorf ''Failed to re-register t[t1] (self), err: timeout'']\<rparr>\<rparr>"
proof -
  have a: "OpAdd = OpAdd \<or> OpAdd = OpEnable" and b: "OpEnable = OpAdd \<or> OpEnable = OpEnable"
    by simp_all
  have 1: "Path m1 \<in> Path ` set (fst (fs_Get the_collab
             (registry \<lparr>registry = world0 [m1] [], events = [CreateNewVMD ''t1'']\<rparr>)))"
    by (simp add: the_collab_def world0_def)
  have 2: "Path m1 \<in> Path ` set (fst (fs_Get the_collab
             (registry \<lparr>registry = world0 [m2, m1] [], events = [CreateNewVMD ''t1'']\<rparr>)))"
    by (simp add: the_collab_def world0_def)
  have 3: "Path m1 \<in> Path ` set (fst (fs_Get the_collab
             (registry \<lparr>registry = (world0 [m1] [])\<lparr>regFails := Some (Error ''timeout'')\<rparr>,
                events = [CreateNewVMD ''t1'']\<rparr>)))"
    by (simp add: the_collab_def world0_def)
  from first_mountpath_self_enable [OF a run_add_first [of False] 1]
    first_mountpath_self_enable [OF b run_enable_second [of False] 2]
    first_mountpath_self_enable [OF b run_enable_flaky [of False] 3]
  show ?thesis
    by (simp add: the_collab_def world0_def m1_def addMpathAct_def enableMpathAct_def)
qed

subsection \<open>The hook\<close>



end
